theory Spec2Isabelle
  imports Complex_Main "HOL-Library.Word"
begin

section \<open>Heterogeneous participating medium (src/src/medium/heterogeneous.cpp)\<close>

text \<open>
  The development embeds the class \<^verbatim>\<open>HeterogeneousMedium\<close>. A value of type
  \<^verbatim>\<open>Float\<close> is a \<^typ>\<open>real\<close>. Rounding is modelled for the quantities that decide
  how far the two marching loops go, where they look the density up and which
  distance is reported: the segment length \<^verbatim>\<open>maxt - mint\<close>, the quotient whose ceiling
  is the number of steps, the step length \<^verbatim>\<open>length / nSteps\<close>, the increments
  \<^verbatim>\<open>ray.d * stepSize\<close>, the sums \<^verbatim>\<open>p + increment\<close> that the forward-progress tests
  compare with \<open>p\<close>, and the sum \<^verbatim>\<open>mint + stepSize * i + x\<close> that is the reported
  distance (function \<open>roundFloat\<close> below). The other operations are exact: the points
  \<^verbatim>\<open>ray(t)\<close> and the degenerate-segment test, the products by a power of two, the
  values looked up and their sums, the Newton iterates.
  Where the source produces an IEEE special value on purpose or by a division by
  zero, the value is written out (type \<open>xfloat\<close> below). Collaborators whose code is outside the file (the
  volume data sources, the phase function, the bounding box, the sampler) are fields
  of the record \<open>medium\<close> or arguments.
\<close>

subsection \<open>Vectors, rays, spectra\<close>

type_synonym vec3 = "real \<times> real \<times> real"

fun vadd :: "vec3 \<Rightarrow> vec3 \<Rightarrow> vec3" where
  "vadd (a, b, c) (x, y, z) = (a + x, b + y, c + z)"

fun vscale :: "vec3 \<Rightarrow> real \<Rightarrow> vec3" where
  "vscale (x, y, z) s = (x * s, y * s, z * s)"

fun dot :: "vec3 \<Rightarrow> vec3 \<Rightarrow> real" where
  "dot (a, b, c) (x, y, z) = a * x + b * y + c * z"

fun isZero :: "vec3 \<Rightarrow> bool" where
  "isZero (x, y, z) = (x = 0 \<and> y = 0 \<and> z = 0)"

fun comps :: "vec3 \<Rightarrow> real list" where
  "comps (x, y, z) = [x, y, z]"

record ray =
  ray_o :: vec3
  ray_d :: vec3
  ray_mint :: real
  ray_maxt :: real

text \<open>\<^verbatim>\<open>ray(t)\<close>: the point \<open>o + t * d\<close>.\<close>

definition ray_at :: "ray \<Rightarrow> real \<Rightarrow> vec3" where
  "ray_at r t = vadd (ray_o r) (vscale (ray_d r) t)"

text \<open>
  A \<^verbatim>\<open>Spectrum\<close> is an array of \<^verbatim>\<open>SPECTRUM_SAMPLES\<close> values; the constant is a
  compile-time setting of the renderer outside this file (3 in the RGB build). The
  general theorems below hold for every value of it; the concrete instances use 3.
\<close>

type_synonym 'a spectrum = "'a list"

definition SPECTRUM_SAMPLES :: nat where
  "SPECTRUM_SAMPLES = 3"

definition Spectrum :: "'a \<Rightarrow> 'a spectrum" where
  "Spectrum v = replicate SPECTRUM_SAMPLES v"

definition spec_scale :: "real spectrum \<Rightarrow> real \<Rightarrow> real spectrum" where
  "spec_scale s v = map (\<lambda>c. c * v) s"

definition spec_sub :: "real spectrum \<Rightarrow> real spectrum \<Rightarrow> real spectrum" where
  "spec_sub a b = map (\<lambda>(x, y). x - y) (zip a b)"

definition spec_max :: "real spectrum \<Rightarrow> real" where
  "spec_max s = (case s of [] \<Rightarrow> 0 | x # xs \<Rightarrow> fold max xs x)"

subsection \<open>Rounding to Float\<close>

text \<open>
  \<^verbatim>\<open>Float\<close> is \<^verbatim>\<open>float\<close> in the single-precision build of the renderer and \<^verbatim>\<open>double\<close>
  in the double-precision build; \<open>P\<close> below is \<^verbatim>\<open>std::numeric_limits<Float>::digits\<close>,
  the number of bits of the significand (24 and 53). \<open>roundFloat P x\<close> is the number
  with a significand of \<open>P\<close> bits nearest to \<open>x\<close>, the one with the even significand
  when two are equally near (the IEEE default rounding). The exponent range is not
  modelled: no overflow and no subnormal numbers.
\<close>

definition round_even :: "real \<Rightarrow> int" where
  "round_even y =
     (let f = \<lfloor>y\<rfloor>; r = y - of_int f
      in if r < 1 / 2 then f else if r > 1 / 2 then f + 1 else if even f then f else f + 1)"

definition roundFloat :: "nat \<Rightarrow> real \<Rightarrow> real" where
  "roundFloat P x =
     (if x = 0 then 0
      else (let ulp = 2 powr (of_int \<lfloor>log 2 \<bar>x\<bar>\<rfloor> + 1 - real P)
            in of_int (round_even (x / ulp)) * ulp))"

text \<open>\<^verbatim>\<open>Point + Vector\<close>: each coordinate is the rounded sum.\<close>

fun padd :: "nat \<Rightarrow> vec3 \<Rightarrow> vec3 \<Rightarrow> vec3" where
  "padd P (a, b, c) (x, y, z) = (roundFloat P (a + x), roundFloat P (b + y), roundFloat P (c + z))"

text \<open>\<^verbatim>\<open>Vector * Float\<close>: each coordinate is the rounded product.\<close>

fun vscaleF :: "nat \<Rightarrow> vec3 \<Rightarrow> real \<Rightarrow> vec3" where
  "vscaleF P (x, y, z) s = (roundFloat P (x * s), roundFloat P (y * s), roundFloat P (z * s))"

text \<open>
  The conversion of a \<^verbatim>\<open>uint32_t\<close> to \<^verbatim>\<open>Float\<close>, which C++ applies to \<^verbatim>\<open>nSteps\<close> in
  \<^verbatim>\<open>length / nSteps\<close> and to \<open>i\<close> in \<^verbatim>\<open>stepSize * i\<close>.
\<close>

definition toFloat :: "nat \<Rightarrow> nat \<Rightarrow> real" where
  "toFloat P k = roundFloat P (real k)"

subsection \<open>Floating-point special values\<close>

datatype xfloat = Fin real | PInf | NInf | NaN

text \<open>\<^verbatim>\<open>std::exp(-x)\<close> on a value that may be special.\<close>

fun exp_neg :: "xfloat \<Rightarrow> xfloat" where
  "exp_neg (Fin v) = Fin (exp (- v))"
| "exp_neg PInf = Fin 0"
| "exp_neg NInf = PInf"
| "exp_neg NaN = NaN"

subsection \<open>The configured medium\<close>

datatype EIntegrationMethod = ESimpsonQuadrature | EWoodcockTracking

text \<open>
  The fields \<^verbatim>\<open>m_anisotropicMedium\<close> and \<^verbatim>\<open>m_orientation\<close> together.
  \<^verbatim>\<open>configure()\<close> raises a fatal error when the phase function needs directionally
  varying coefficients and no orientation volume was given, so a configured medium
  is in one of two states: isotropic with an optional orientation volume, or
  anisotropic with an orientation volume.
\<close>

datatype directional =
    Isotropic "(vec3 \<Rightarrow> vec3) option"
  | Anisotropic "vec3 \<Rightarrow> vec3"

fun anisotropicMedium :: "directional \<Rightarrow> bool" where
  "anisotropicMedium (Isotropic _) = False"
| "anisotropicMedium (Anisotropic _) = True"

fun orientation_of :: "directional \<Rightarrow> (vec3 \<Rightarrow> vec3) option" where
  "orientation_of (Isotropic f) = f"
| "orientation_of (Anisotropic f) = Some f"

record medium =
  m_method :: EIntegrationMethod
  m_density :: "vec3 \<Rightarrow> real"             \<comment> \<open>\<^verbatim>\<open>m_density->lookupFloat\<close>\<close>
  m_albedo :: "vec3 \<Rightarrow> real spectrum"      \<comment> \<open>\<^verbatim>\<open>m_albedo->lookupSpectrum\<close>\<close>
  m_directional :: directional
  sigmaDir :: "real \<Rightarrow> real"               \<comment> \<open>\<^verbatim>\<open>m_phaseFunction->sigmaDir\<close>\<close>
  m_stepSize :: real
  m_densityMultiplier :: real
  m_invMaxDensity :: real
  rayIntersect :: "ray \<Rightarrow> (real \<times> real) option"  \<comment> \<open>\<^verbatim>\<open>m_densityAABB.rayIntersect\<close>\<close>
  Epsilon :: real                            \<comment> \<open>the constant of \<^verbatim>\<open>mitsuba/core/constants.h\<close>\<close>
  HETVOL_EARLY_EXIT :: bool                  \<comment> \<open>the compile-time switch; defined in the file as shipped\<close>
  Float_digits :: nat                        \<comment> \<open>\<^verbatim>\<open>std::numeric_limits<Float>::digits\<close>: 24 or 53\<close>

abbreviation m_anisotropicMedium :: "medium \<Rightarrow> bool" where
  "m_anisotropicMedium m \<equiv> anisotropicMedium (m_directional m)"

abbreviation m_orientation :: "medium \<Rightarrow> (vec3 \<Rightarrow> vec3) option" where
  "m_orientation m \<equiv> orientation_of (m_directional m)"

subsection \<open>lookupDensity\<close>

definition lookupDensity :: "medium \<Rightarrow> vec3 \<Rightarrow> vec3 \<Rightarrow> real" where
  "lookupDensity m p d =
     (let density = m_density m p in
      case m_directional m of
        Anisotropic orientationField \<Rightarrow>
          if density \<noteq> 0 then
            (let orientation = orientationField p in
             if \<not> isZero orientation
             then density * sigmaDir m (dot d orientation)
             else 0)
          else density
      | Isotropic _ \<Rightarrow> density)"

subsection \<open>IEEE results of a division and of comparisons\<close>

text \<open>
  \<open>fdiv a b\<close> is \<^verbatim>\<open>a / b\<close>: a division by zero gives an infinity of the sign of the
  dividend, and NaN for \<^verbatim>\<open>0 / 0\<close>. \<open>inf_times v\<close> is the product of a finite \<open>v\<close> with
  \<open>+\<infinity>\<close>. \<open>gt_x s x\<close> is \<^verbatim>\<open>s > x\<close> (false against NaN).
\<close>

definition fdiv :: "real \<Rightarrow> real \<Rightarrow> xfloat" where
  "fdiv a b = (if b \<noteq> 0 then Fin (a / b)
               else if a > 0 then PInf else if a < 0 then NInf else NaN)"

text \<open>\<open>fdivF P a b\<close> is the quotient as a \<^verbatim>\<open>Float\<close>: rounded when it is finite.\<close>

definition fdivF :: "nat \<Rightarrow> real \<Rightarrow> real \<Rightarrow> xfloat" where
  "fdivF P a b = (if b \<noteq> 0 then Fin (roundFloat P (a / b))
                  else if a > 0 then PInf else if a < 0 then NInf else NaN)"

definition inf_times :: "real \<Rightarrow> xfloat" where
  "inf_times v = (if v > 0 then PInf else if v < 0 then NInf else NaN)"

fun xmul :: "xfloat \<Rightarrow> real \<Rightarrow> xfloat" where
  "xmul (Fin a) b = Fin (a * b)"
| "xmul PInf b = inf_times b"
| "xmul NInf b = inf_times (- b)"
| "xmul NaN b = NaN"

fun gt_x :: "real \<Rightarrow> xfloat \<Rightarrow> bool" where
  "gt_x s (Fin v) = (s > v)"
| "gt_x s PInf = False"
| "gt_x s NInf = True"
| "gt_x s NaN = False"

fun xpos :: "xfloat \<Rightarrow> bool" where
  "xpos (Fin v) = (v > 0)"
| "xpos PInf = True"
| "xpos NInf = False"
| "xpos NaN = False"


text \<open>Channel-wise quotient of two spectra.\<close>

definition spec_fdiv :: "real spectrum \<Rightarrow> real spectrum \<Rightarrow> xfloat spectrum" where
  "spec_fdiv a b = map (\<lambda>(x, y). fdiv x y) (zip a b)"

subsection \<open>integrateDensity\<close>

text \<open>The loop over the three coordinates that computes \<^verbatim>\<open>maxComp\<close>.\<close>

definition maxComp_of :: "vec3 \<Rightarrow> vec3 \<Rightarrow> real" where
  "maxComp_of p pLast =
     fold (\<lambda>(a, b) maxComp. max (max maxComp \<bar>a\<bar>) \<bar>b\<bar>) (zip (comps p) (comps pLast)) 0"

text \<open>
  \<^verbatim>\<open>(uint32_t) std::ceil(x)\<close>. C++ defines the conversion when the ceiling is in
  \<open>0 .. 2^32 - 1\<close>; outside that range (and for the infinite quotient of a step size
  0, which is 0 here) the behaviour is undefined and the model reduces modulo \<open>2^32\<close>.
  The model follows the code for step sizes \<open>> 0\<close> and quotients below \<open>2^32\<close>.
\<close>

definition ceil_u32 :: "real \<Rightarrow> 32 word" where
  "ceil_u32 x = word_of_int \<lceil>x\<rceil>"

text \<open>
  \<^verbatim>\<open>nSteps = (uint32_t) std::ceil(length / m_stepSize); nSteps += nSteps % 2;\<close> The
  argument of \<^verbatim>\<open>std::ceil\<close> is the quotient as a \<^verbatim>\<open>Float\<close>, that is rounded.
\<close>

definition simpson_nSteps :: "nat \<Rightarrow> real \<Rightarrow> real \<Rightarrow> 32 word" where
  "simpson_nSteps P len stepSize =
     (let nSteps = ceil_u32 (roundFloat P (len / stepSize)) in nSteps + nSteps mod 2)"

text \<open>
  The loop \<^verbatim>\<open>for (i=1; i<nSteps; ++i)\<close> with its state \<open>p\<close>, \<open>m\<close> and
  \<open>integratedDensity\<close>. \<open>None\<close> is the early exit (the function then returns
  infinity); \<open>Some s\<close> is the sum when the loop ends or breaks for lack of progress
  (the warning that the source logs before the \<^verbatim>\<open>break\<close> is not part of the value).
\<close>

function simpsonLoop ::
  "medium \<Rightarrow> vec3 \<Rightarrow> vec3 \<Rightarrow> xfloat \<Rightarrow> nat \<Rightarrow> nat \<Rightarrow> vec3 \<Rightarrow> real \<Rightarrow> real \<Rightarrow> real option" where
  "simpsonLoop M d increment stopValue nSteps i p m integratedDensity =
     (if i < nSteps then
        (let integratedDensity' = integratedDensity + m * lookupDensity M p d;
             m' = 6 - m
         in if HETVOL_EARLY_EXIT M \<and> gt_x integratedDensity' stopValue then None
            else
              (let next = padd (Float_digits M) p increment
               in if p = next then Some integratedDensity'
                  else simpsonLoop M d increment stopValue nSteps (Suc i) next m' integratedDensity'))
      else Some integratedDensity)"
  by pat_completeness auto
termination
  by (relation "measure (\<lambda>(M, d, increment, stopValue, nSteps, i, p, m, s). nSteps - i)") auto

declare simpsonLoop.simps [simp del]

text \<open>
  \<open>lengthF\<close> is the variable \<^verbatim>\<open>length\<close> of the source, the difference \<^verbatim>\<open>maxt - mint\<close> as
  a \<^verbatim>\<open>Float\<close>; the step count and the step length are computed from it. The test for
  a degenerate segment is made on the difference before rounding.
\<close>

definition integrateDensity :: "medium \<Rightarrow> ray \<Rightarrow> xfloat" where
  "integrateDensity M r =
     (case rayIntersect M r of
        None \<Rightarrow> Fin 0
      | Some (mint0, maxt0) \<Rightarrow>
          (let mint = max mint0 (ray_mint r);
               maxt = min maxt0 (ray_maxt r);
               len = maxt - mint;
               p = ray_at r mint;
               pLast = ray_at r maxt;
               maxComp = maxComp_of p pLast
           in if len < 1 / 1000000 * maxComp then Fin 0
              else
                (let lengthF = roundFloat (Float_digits M) len;
                     nSteps = simpson_nSteps (Float_digits M) lengthF (m_stepSize M);
                     integratedDensity =
                       lookupDensity M p (ray_d r) + lookupDensity M pLast (ray_d r)
                 in case fdivF (Float_digits M) lengthF
                           (toFloat (Float_digits M) (unat nSteps)) of
                      Fin stepSize \<Rightarrow>
                        (let increment = vscaleF (Float_digits M) (ray_d r) stepSize;
                             stopAfterDensity = - ln (Epsilon M);
                             stopValue = fdiv (stopAfterDensity * 3)
                                              (stepSize * m_densityMultiplier M)
                         in case simpsonLoop M (ray_d r) increment stopValue (unat nSteps) 1
                                   (padd (Float_digits M) p increment) 4 integratedDensity of
                              None \<Rightarrow> PInf
                            | Some s \<Rightarrow> Fin (s * m_densityMultiplier M * stepSize * (1 / 3)))
                    | PInf \<Rightarrow> inf_times (integratedDensity * m_densityMultiplier M)
                    | NInf \<Rightarrow> inf_times (- (integratedDensity * m_densityMultiplier M))
                    | NaN \<Rightarrow> NaN)))"

subsection \<open>getTransmittance\<close>

text \<open>
  The sampler is the list of the numbers its next calls of \<^verbatim>\<open>next1D()\<close> return, each
  in \<open>[0, 1)\<close>; a function that draws returns the rest of the list. The result
  \<open>None\<close> of a tracking loop means that the list ended before the loop did.
\<close>

type_synonym sampler = "real list"

text \<open>
  One run of the inner \<^verbatim>\<open>while (true)\<close> loop of \<^verbatim>\<open>getTransmittance\<close>: the value added
  to \<^verbatim>\<open>result\<close> (1 when the proposal leaves the segment, 0 when a collision is
  accepted) and the sampler after the run.
\<close>

fun transmittanceRun :: "medium \<Rightarrow> ray \<Rightarrow> real \<Rightarrow> real \<Rightarrow> sampler \<Rightarrow> (real \<times> sampler) option" where
  "transmittanceRun M r maxt t [] = None"
| "transmittanceRun M r maxt t (u # us) =
     (let t' = t - ln (1 - u) * m_invMaxDensity M
      in if t' \<ge> maxt then Some (1, us)
         else
           (let p = ray_at r t';
                density = lookupDensity M p (ray_d r) * m_densityMultiplier M
            in case us of
                 [] \<Rightarrow> None
               | v # vs \<Rightarrow>
                   if density * m_invMaxDensity M > v then Some (0, vs)
                   else transmittanceRun M r maxt t' vs))"

text \<open>The outer loop \<^verbatim>\<open>for (int i=0; i<nSamples; ++i)\<close>, counted down.\<close>

fun transmittanceRuns ::
  "medium \<Rightarrow> ray \<Rightarrow> real \<Rightarrow> real \<Rightarrow> nat \<Rightarrow> real \<Rightarrow> sampler \<Rightarrow> (real \<times> sampler) option" where
  "transmittanceRuns M r mint maxt 0 result us = Some (result, us)"
| "transmittanceRuns M r mint maxt (Suc k) result us =
     (case transmittanceRun M r maxt mint us of
        None \<Rightarrow> None
      | Some (c, us') \<Rightarrow> transmittanceRuns M r mint maxt k (result + c) us')"

definition getTransmittance ::
  "medium \<Rightarrow> ray \<Rightarrow> sampler option \<Rightarrow> (xfloat spectrum \<times> sampler option) option" where
  "getTransmittance M r sampler =
     (if m_method M = ESimpsonQuadrature \<or> sampler = None
      then Some (Spectrum (exp_neg (integrateDensity M r)), sampler)
      else
        (case rayIntersect M r of
           None \<Rightarrow> Some (Spectrum (Fin 1), sampler)
         | Some (mint0, maxt0) \<Rightarrow>
             (let mint = max mint0 (ray_mint r);
                  maxt = min maxt0 (ray_maxt r);
                  nSamples = 2
              in case transmittanceRuns M r mint maxt nSamples 0 (the sampler) of
                   None \<Rightarrow> None
                 | Some (result, us) \<Rightarrow>
                     Some (Spectrum (Fin (result / real nSamples)), Some us))))"

subsection \<open>The sampling record and pdfDistance\<close>

record MediumSamplingRecord =
  mr_t :: real
  mr_p :: vec3
  mr_sigmaA :: "real spectrum"
  mr_sigmaS :: "real spectrum"
  mr_albedo :: real
  mr_orientation :: vec3
  pdfFailure :: xfloat
  pdfSuccess :: xfloat
  pdfSuccessRev :: xfloat
  transmittance :: "xfloat spectrum"

text \<open>\<^verbatim>\<open>Log(EError, ...)\<close> throws; the call produces no record.\<close>

datatype error = UnsupportedIntegrationMethod

definition pdfDistance ::
  "medium \<Rightarrow> ray \<Rightarrow> MediumSamplingRecord \<Rightarrow> error + MediumSamplingRecord" where
  "pdfDistance M r mRec =
     (if m_method M = ESimpsonQuadrature then
        (let expVal = exp_neg (integrateDensity M r)
         in Inr (mRec\<lparr>
              transmittance := Spectrum expVal,
              pdfFailure := expVal,
              pdfSuccess := xmul (xmul expVal (lookupDensity M (ray_at r (ray_maxt r)) (ray_d r)))
                                 (m_densityMultiplier M),
              pdfSuccessRev := xmul (xmul expVal (lookupDensity M (ray_at r (ray_mint r)) (ray_d r)))
                                    (m_densityMultiplier M)\<rparr>))
      else Inl UnsupportedIntegrationMethod)"

subsection \<open>invertDensityIntegral\<close>

text \<open>
  The quadratic through the three lookups of a step (the source's ``Lagrange
  polynomial'', written out twice there: for \<^verbatim>\<open>dfx\<close> and for \<^verbatim>\<open>densityAtT\<close>) and its
  integral from 0 to \<open>x\<close>.
\<close>

definition lagrange :: "real \<Rightarrow> real \<Rightarrow> real \<Rightarrow> real \<Rightarrow> real \<Rightarrow> real \<Rightarrow> real" where
  "lagrange temp node1 node2 node3 stepSize x =
     temp * (node1 * (stepSize * stepSize)
       - (3 * node1 - 4 * node2 + node3) * stepSize * x
       + 2 * (node1 - 2 * node2 + node3) * x * x)"

definition lagrangeIntegral :: "real \<Rightarrow> real \<Rightarrow> real \<Rightarrow> real \<Rightarrow> real \<Rightarrow> real \<Rightarrow> real" where
  "lagrangeIntegral temp node1 node2 node3 stepSize x =
     temp * (1 / 6) * (x *
       (6 * node1 * (stepSize * stepSize)
        - 3 * (3 * node1 - 4 * node2 + node3) * stepSize * x
        + 4 * (node1 - 2 * node2 + node3) * x * x))"

text \<open>
  The \<^verbatim>\<open>while (true)\<close> loop of the Newton-Bisection solve. \<open>Some (x, intval, densityAtT)\<close>
  is the converged exit, \<open>None\<close> the exit after 30 iterations. When \<open>dfx = 0\<close> the
  quotient \<^verbatim>\<open>fx/dfx\<close> is not finite and the source replaces \<open>x\<close> by the midpoint, as
  the third disjunct of the test does here.
\<close>

function newtonBisection ::
  "real \<Rightarrow> real \<Rightarrow> real \<Rightarrow> real \<Rightarrow> real \<Rightarrow> real \<Rightarrow> real \<Rightarrow>
   real \<Rightarrow> real \<Rightarrow> real \<Rightarrow> real \<Rightarrow> nat \<Rightarrow> (real \<times> real \<times> real) option" where
  "newtonBisection temp node1 node2 node3 stepSize integratedDensity desiredDensity a b x fx it =
     (let dfx = lagrange temp node1 node2 node3 stepSize x;
          x1 = x - fx / dfx;
          x2 = (if x1 \<le> a \<or> x1 \<ge> b \<or> dfx = 0 then (1 / 2) * (b + a) else x1);
          intval = integratedDensity + lagrangeIntegral temp node1 node2 node3 stepSize x2;
          fx' = intval - desiredDensity
      in if \<bar>fx'\<bar> < 1 / 1000000
         then Some (x2, intval, lagrange temp node1 node2 node3 stepSize x2)
         else if Suc it > 30 then None
         else if fx' > 0
              then newtonBisection temp node1 node2 node3 stepSize integratedDensity
                     desiredDensity a x2 x2 fx' (Suc it)
              else newtonBisection temp node1 node2 node3 stepSize integratedDensity
                     desiredDensity x2 b x2 fx' (Suc it))"
  by pat_completeness auto
termination
  by (relation "measure (\<lambda>(temp, n1, n2, n3, h, I, D, a, b, x, fx, it). 31 - it)") auto

declare newtonBisection.simps [simp del]

text \<open>
  The two warnings that \<^verbatim>\<open>invertDensityIntegral\<close> logs with \<^verbatim>\<open>Log(EWarn, ...)\<close>:
  ``stuck in Newton-Bisection'' before it returns false from the solve, and ``unable
  to make forward progress'' before it leaves the marching loop.
\<close>

datatype warning = StuckInNewtonBisection | NoForwardProgress

text \<open>
  The outputs of \<^verbatim>\<open>invertDensityIntegral\<close>. The parameter \<^verbatim>\<open>t\<close> is written only on
  success: \<open>inv_t\<close> is \<open>None\<close> when the caller's variable keeps its value.
  \<open>inv_warning\<close> is the warning that the call logged, if any.
\<close>

record invertResult =
  inv_success :: bool
  inv_integratedDensity :: real
  inv_t :: "real option"
  inv_densityAtMinT :: real
  inv_densityAtT :: real
  inv_warning :: "warning option"

text \<open>
  The loop \<^verbatim>\<open>for (i=0; i<nSteps; ++i)\<close>: its state is \<open>p\<close>, \<open>node1\<close> and
  \<open>integratedDensity\<close>. The result is (success, integratedDensity, t, densityAtT,
  warning).
\<close>

function invertLoop ::
  "medium \<Rightarrow> vec3 \<Rightarrow> vec3 \<Rightarrow> vec3 \<Rightarrow> real \<Rightarrow> real \<Rightarrow> real \<Rightarrow> real \<Rightarrow>
   nat \<Rightarrow> nat \<Rightarrow> vec3 \<Rightarrow> real \<Rightarrow> real \<Rightarrow>
   bool \<times> real \<times> real option \<times> real \<times> warning option" where
  "invertLoop M d fullStep halfStep stepSize multiplier desiredDensity mint nSteps i p node1
       integratedDensity =
     (if i < nSteps then
        (let node2 = lookupDensity M (padd (Float_digits M) p halfStep) d;
             node3 = lookupDensity M (padd (Float_digits M) p fullStep) d;
             newDensity = integratedDensity + multiplier * (node1 + node2 * 4 + node3)
         in if newDensity \<ge> desiredDensity then
              (let a = 0; b = stepSize; x = a;
                   fx = integratedDensity - desiredDensity;
                   stepSizeSqr = stepSize * stepSize;
                   temp = m_densityMultiplier M / stepSizeSqr
               in case newtonBisection temp node1 node2 node3 stepSize integratedDensity
                         desiredDensity a b x fx 1 of
                    Some (x', intval, densityAtT) \<Rightarrow>
                      (True, intval,
                       Some (roundFloat (Float_digits M)
                               (roundFloat (Float_digits M)
                                  (mint + roundFloat (Float_digits M)
                                            (stepSize * toFloat (Float_digits M) i))
                                + x')),
                       densityAtT, None)
                  | None \<Rightarrow> (False, integratedDensity, None, 0, Some StuckInNewtonBisection))
            else
              (let next = padd (Float_digits M) p fullStep
               in if p = next then (False, integratedDensity, None, 0, Some NoForwardProgress)
                  else invertLoop M d fullStep halfStep stepSize multiplier desiredDensity mint
                         nSteps (Suc i) next node3 newDensity))
      else (False, integratedDensity, None, 0, None))"
  by pat_completeness auto
termination
  by (relation "measure (\<lambda>(M, d, fs, hs, h, mu, D, mint, nSteps, i, p, n1, I). nSteps - i)") auto

declare invertLoop.simps [simp del]

text \<open>
  When \<open>nSteps = 0\<close> the quotient \<^verbatim>\<open>length / nSteps\<close> is not finite in IEEE arithmetic;
  the loop body does not run and the quotient is not used. \<open>lengthF\<close> is the variable
  \<^verbatim>\<open>length\<close> of the source, as in \<^verbatim>\<open>integrateDensity\<close>; the product \<^verbatim>\<open>fullStep * .5f\<close>
  is exact.
\<close>

definition invertDensityIntegral :: "medium \<Rightarrow> ray \<Rightarrow> real \<Rightarrow> invertResult" where
  "invertDensityIntegral M r desiredDensity =
     (case rayIntersect M r of
        None \<Rightarrow> \<lparr>inv_success = False, inv_integratedDensity = 0, inv_t = None,
                  inv_densityAtMinT = 0, inv_densityAtT = 0, inv_warning = None\<rparr>
      | Some (mint0, maxt0) \<Rightarrow>
          (let mint = max mint0 (ray_mint r);
               maxt = min maxt0 (ray_maxt r);
               len = maxt - mint;
               p = ray_at r mint;
               pLast = ray_at r maxt;
               maxComp = maxComp_of p pLast
           in if len < 1 / 1000000 * maxComp
              then \<lparr>inv_success = False, inv_integratedDensity = 0, inv_t = None,
                     inv_densityAtMinT = 0, inv_densityAtT = 0, inv_warning = None\<rparr>
              else
                (let lengthF = roundFloat (Float_digits M) len;
                     nSteps = ceil_u32 (roundFloat (Float_digits M)
                                          (lengthF / (2 * m_stepSize M)));
                     stepSize = roundFloat (Float_digits M)
                                  (lengthF / toFloat (Float_digits M) (unat nSteps));
                     multiplier = (1 / 6) * stepSize * m_densityMultiplier M;
                     fullStep = vscaleF (Float_digits M) (ray_d r) stepSize;
                     halfStep = vscale fullStep (1 / 2);
                     node1 = lookupDensity M p (ray_d r);
                     densityAtMinT =
                       (if ray_mint r = mint then node1 * m_densityMultiplier M else 0)
                 in case invertLoop M (ray_d r) fullStep halfStep stepSize multiplier
                           desiredDensity mint (unat nSteps) 0 p node1 0 of
                      (success, integratedDensity, t, densityAtT, warning) \<Rightarrow>
                        \<lparr>inv_success = success, inv_integratedDensity = integratedDensity,
                         inv_t = t, inv_densityAtMinT = densityAtMinT,
                         inv_densityAtT = densityAtT, inv_warning = warning\<rparr>)))"

subsection \<open>sampleDistance\<close>

text \<open>
  The \<^verbatim>\<open>while (true)\<close> loop of the Woodcock branch: \<open>Some (Some (t, densityAtT), us)\<close>
  when a collision is accepted at \<open>t\<close>, \<open>Some (None, us)\<close> when a proposal leaves the
  segment, \<open>None\<close> when the list of samples ends first.
\<close>

fun woodcockLoop ::
  "medium \<Rightarrow> ray \<Rightarrow> real \<Rightarrow> real \<Rightarrow> sampler \<Rightarrow> ((real \<times> real) option \<times> sampler) option" where
  "woodcockLoop M r maxt t [] = None"
| "woodcockLoop M r maxt t (u # us) =
     (let t' = t - ln (1 - u) * m_invMaxDensity M
      in if t' \<ge> maxt then Some (None, us)
         else
           (let p = ray_at r t';
                densityAtT = lookupDensity M p (ray_d r) * m_densityMultiplier M
            in case us of
                 [] \<Rightarrow> None
               | v # vs \<Rightarrow>
                   if densityAtT * m_invMaxDensity M > v then Some (Some (t', densityAtT), vs)
                   else woodcockLoop M r maxt t' vs))"

definition orientationAt :: "medium \<Rightarrow> vec3 \<Rightarrow> vec3" where
  "orientationAt M p = (case m_orientation M of Some f \<Rightarrow> f p | None \<Rightarrow> (0, 0, 0))"

definition sampleDistance ::
  "medium \<Rightarrow> ray \<Rightarrow> MediumSamplingRecord \<Rightarrow> sampler \<Rightarrow>
   (bool \<times> MediumSamplingRecord \<times> sampler) option" where
  "sampleDistance M r mRec sampler =
     (if m_method M = ESimpsonQuadrature then
        (case sampler of
           [] \<Rightarrow> None
         | u # us \<Rightarrow>
             (let desiredDensity = - ln (1 - u);
                  res = invertDensityIntegral M r desiredDensity;
                  densityAtT = inv_densityAtT res;
                  mRec1 =
                    (if inv_success res then
                       (let t = (case inv_t res of Some t' \<Rightarrow> t' | None \<Rightarrow> mr_t mRec);
                            p = ray_at r t;
                            albedo = m_albedo M p;
                            sigmaS = spec_scale albedo densityAtT
                        in mRec\<lparr>mr_t := t, mr_p := p, mr_sigmaS := sigmaS,
                                mr_sigmaA := spec_sub (Spectrum densityAtT) sigmaS,
                                mr_albedo := spec_max albedo,
                                mr_orientation := orientationAt M p\<rparr>)
                     else mRec);
                  expVal = exp (- inv_integratedDensity res);
                  mRec2 = mRec1\<lparr>pdfFailure := Fin expVal,
                                 pdfSuccess := Fin (expVal * densityAtT),
                                 pdfSuccessRev := Fin (expVal * inv_densityAtMinT res),
                                 transmittance := Spectrum (Fin expVal)\<rparr>
              in Some (inv_success res \<and> xpos (pdfSuccess mRec2), mRec2, us)))
      else
        (let mRec1 = mRec\<lparr>pdfFailure := Fin 1, pdfSuccess := Fin 1, pdfSuccessRev := Fin 1,
                            transmittance := Spectrum (Fin 1)\<rparr>
         in case rayIntersect M r of
              None \<Rightarrow> Some (False, mRec1, sampler)
            | Some (mint0, maxt0) \<Rightarrow>
                (let mint = max mint0 (ray_mint r);
                     maxt = min maxt0 (ray_maxt r)
                 in case woodcockLoop M r maxt mint sampler of
                      None \<Rightarrow> None
                    | Some (None, us) \<Rightarrow> Some (False \<and> xpos (pdfSuccess mRec1), mRec1, us)
                    | Some (Some (t, densityAtT), us) \<Rightarrow>
                        (let p = ray_at r t;
                             albedo = m_albedo M p;
                             sigmaS = spec_scale albedo densityAtT;
                             mRec2 = mRec1\<lparr>mr_t := t, mr_p := p, mr_sigmaS := sigmaS,
                                       mr_sigmaA := spec_sub (Spectrum densityAtT) sigmaS,
                                       mr_albedo := spec_max albedo,
                                       transmittance := spec_fdiv albedo sigmaS,
                                       mr_orientation := orientationAt M p\<rparr>
                         in Some (True \<and> xpos (pdfSuccess mRec2), mRec2, us)))))"

subsection \<open>Reference sums\<close>

text \<open>
  Used to state what the two marching loops add up. \<open>advance P p inc k\<close> is the point
  reached from \<open>p\<close> by \<open>k\<close> rounded additions of \<open>inc\<close>. \<open>marchSum\<close> is the running
  total of \<^verbatim>\<open>invertDensityIntegral\<close> after \<open>k\<close> further steps of its march, each adding
  the three-point term \<open>multiplier * (node1 + 4 node2 + node3)\<close>: started at
  \<open>ray(mint)\<close> with total 0 and run for \<open>nSteps\<close> steps, it is the composite Simpson
  value of the whole segment as the march accumulates it.
\<close>

fun advance :: "nat \<Rightarrow> vec3 \<Rightarrow> vec3 \<Rightarrow> nat \<Rightarrow> vec3" where
  "advance P p inc 0 = p"
| "advance P p inc (Suc k) = advance P (padd P p inc) inc k"


subsection \<open>Example media and rays\<close>

text \<open>
  Concrete inputs for the instances below: a bound that rays along the x axis enter at
  parameter 0 and leave at parameter 1 and that every other ray misses, density
  volumes, and three rays.
\<close>

definition ex_rayIntersect :: "ray \<Rightarrow> (real \<times> real) option" where
  "ex_rayIntersect r = (if ray_d r = (1, 0, 0) then Some (0, 1) else None)"

definition constDensity :: "real \<Rightarrow> vec3 \<Rightarrow> real" where
  "constDensity c p = c"


definition ex_albedo :: "vec3 \<Rightarrow> real spectrum" where
  "ex_albedo p = [1 / 2, 1 / 2, 1 / 2]"

definition ex_orientation :: "vec3 \<Rightarrow> vec3" where
  "ex_orientation p = (1, 0, 0)"

definition ex_medium :: "EIntegrationMethod \<Rightarrow> (vec3 \<Rightarrow> real) \<Rightarrow> medium" where
  "ex_medium method density =
     \<lparr>m_method = method, m_density = density, m_albedo = ex_albedo,
      m_directional = Isotropic None, sigmaDir = abs, m_stepSize = 1 / 2,
      m_densityMultiplier = 1, m_invMaxDensity = 1 / 2, rayIntersect = ex_rayIntersect,
      Epsilon = 1 / 10000, HETVOL_EARLY_EXIT = True, Float_digits = 24\<rparr>"

definition ex_ray :: ray where
  "ex_ray = \<lparr>ray_o = (0, 0, 0), ray_d = (1, 0, 0), ray_mint = 0, ray_maxt = 1\<rparr>"

definition ex_far_ray :: ray where
  "ex_far_ray = \<lparr>ray_o = (10000000, 0, 0), ray_d = (1, 0, 0), ray_mint = 0, ray_maxt = 1\<rparr>"

definition ex_miss_ray :: ray where
  "ex_miss_ray = \<lparr>ray_o = (0, 0, 0), ray_d = (0, 1, 0), ray_mint = 0, ray_maxt = 1\<rparr>"

definition ex_mRec :: MediumSamplingRecord where
  "ex_mRec = \<lparr>mr_t = 0, mr_p = (0, 0, 0), mr_sigmaA = [], mr_sigmaS = [], mr_albedo = 0,
     mr_orientation = (0, 0, 0), pdfFailure = Fin 0, pdfSuccess = Fin 0,
     pdfSuccessRev = Fin 0, transmittance = []\<rparr>"



definition ex_distant_ray :: ray where
  "ex_distant_ray = \<lparr>ray_o = (524288, 0, 0), ray_d = (1, 0, 0), ray_mint = 0, ray_maxt = 1\<rparr>"




subsection \<open>Facts about the example inputs\<close>

lemma ex_medium_fields [simp]:
  "m_method (ex_medium method f) = method"
  "m_density (ex_medium method f) = f"
  "m_albedo (ex_medium method f) p = [1 / 2, 1 / 2, 1 / 2]"
  "m_directional (ex_medium method f) = Isotropic None"
  "m_stepSize (ex_medium method f) = 1 / 2"
  "m_densityMultiplier (ex_medium method f) = 1"
  "m_invMaxDensity (ex_medium method f) = 1 / 2"
  "Epsilon (ex_medium method f) = 1 / 10000"
  "HETVOL_EARLY_EXIT (ex_medium method f) = True"
  "Float_digits (ex_medium method f) = 24"
  by (simp_all add: ex_medium_def ex_albedo_def)

lemma ex_lookupDensity [simp]: "lookupDensity (ex_medium method f) p d = f p"
  by (simp add: lookupDensity_def)

lemma ex_rays [simp]:
  "ray_d ex_ray = (1, 0, 0)" "ray_o ex_ray = (0, 0, 0)"
  "ray_mint ex_ray = 0" "ray_maxt ex_ray = 1"
  "ray_d ex_far_ray = (1, 0, 0)" "ray_o ex_far_ray = (10000000, 0, 0)"
  "ray_mint ex_far_ray = 0" "ray_maxt ex_far_ray = 1"
  "rayIntersect (ex_medium method f) ex_ray = Some (0, 1)"
  "rayIntersect (ex_medium method f) ex_far_ray = Some (0, 1)"
  "rayIntersect (ex_medium method f) ex_miss_ray = None"
  by (simp_all add: ex_medium_def ex_ray_def ex_far_ray_def ex_miss_ray_def ex_rayIntersect_def)

lemma ex_stepSize_fields:
  "rayIntersect (ex_medium method f\<lparr>m_stepSize := s\<rparr>) ex_ray = Some (0, 1)"
  "rayIntersect (ex_medium method f\<lparr>m_stepSize := s\<rparr>) ex_distant_ray = Some (0, 1)"
  "m_stepSize (ex_medium method f\<lparr>m_stepSize := s\<rparr>) = s"
  "m_densityMultiplier (ex_medium method f\<lparr>m_stepSize := s\<rparr>) = 1"
  "Epsilon (ex_medium method f\<lparr>m_stepSize := s\<rparr>) = 1 / 10000"
  "HETVOL_EARLY_EXIT (ex_medium method f\<lparr>m_stepSize := s\<rparr>)"
  "Float_digits (ex_medium method f\<lparr>m_stepSize := s\<rparr>) = 24"
  "lookupDensity (ex_medium method f\<lparr>m_stepSize := s\<rparr>) p d = f p"
  by (simp_all add: lookupDensity_def ex_medium_def ex_ray_def ex_distant_ray_def
        ex_rayIntersect_def)

lemma ex_distant_ray_fields [simp]:
  "ray_d ex_distant_ray = (1, 0, 0)" "ray_o ex_distant_ray = (524288, 0, 0)"
  "ray_mint ex_distant_ray = 0" "ray_maxt ex_distant_ray = 1"
  "rayIntersect (ex_medium method f) ex_distant_ray = Some (0, 1)"
  by (simp_all add: ex_distant_ray_def ex_medium_def ex_rayIntersect_def)

lemma ln_2_not_ge_2: "\<not> 2 \<le> ln (2::real)"
  using ln_2_less_1 by linarith

lemma ln_10000_bounds: "1 < ln (10000::real)" "ln (10000::real) < 10000"
proof -
  have "exp (1::real) < 10000" using exp_le by linarith
  then have "ln (exp (1::real)) < ln 10000" by (subst ln_less_cancel_iff) simp_all
  then show "1 < ln (10000::real)" by simp
  show "ln (10000::real) < 10000" by (rule ln_less_self) simp
qed

subsection \<open>Fields that the functions do not read\<close>

lemma lookupDensity_method [simp]:
  "lookupDensity (M\<lparr>m_method := x\<rparr>) p d = lookupDensity M p d"
  by (simp add: lookupDensity_def Let_def split: directional.split)

lemma simpsonLoop_method [simp]:
  "simpsonLoop (M\<lparr>m_method := x\<rparr>) d inc sv n i p m acc = simpsonLoop M d inc sv n i p m acc"
proof (induction M d inc sv n i p m acc rule: simpsonLoop.induct)
  case (1 M d inc sv n i p m acc)
  show ?case
    by (subst simpsonLoop.simps, subst (2) simpsonLoop.simps) (simp add: Let_def 1)
qed

lemma integrateDensity_method [simp]:
  "integrateDensity (M\<lparr>m_method := x\<rparr>) r = integrateDensity M r"
  by (simp add: integrateDensity_def Let_def
        cong: option.case_cong prod.case_cong xfloat.case_cong if_cong)

lemma lookupDensity_exit [simp]:
  "lookupDensity (M\<lparr>HETVOL_EARLY_EXIT := x\<rparr>) p d = lookupDensity M p d"
  by (simp add: lookupDensity_def Let_def split: directional.split)

subsection \<open>Rounding\<close>

lemma floor_log2_bracket:
  assumes "2 powr of_int e \<le> x" and "x < 2 powr (of_int e + 1)"
  shows "\<lfloor>log 2 x\<rfloor> = e"
proof -
  have "(0::real) < 2 powr of_int e" by simp
  with assms(1) have x: "0 < x" by linarith
  have "of_int e \<le> log 2 x" using assms(1) x by (simp add: le_log_iff)
  moreover have "log 2 x < of_int e + 1" using assms(2) x by (simp add: log_less_iff)
  ultimately show ?thesis by (simp add: floor_eq_iff)
qed

lemma roundFloat_bracket:
  assumes "2 powr of_int e \<le> \<bar>x\<bar>" and "\<bar>x\<bar> < 2 powr (of_int e + 1)"
  shows "roundFloat P x =
     of_int (round_even (x / 2 powr (of_int e + 1 - real P))) * 2 powr (of_int e + 1 - real P)"
proof -
  have "(0::real) < 2 powr of_int e" by simp
  with assms(1) have "x \<noteq> 0" by auto
  then show ?thesis
    by (simp add: roundFloat_def Let_def floor_log2_bracket [OF assms])
qed

lemma round_even_of_int [simp]: "round_even (of_int k) = k"
  by (simp add: round_even_def)

lemma round_even_nonneg: "0 \<le> y \<Longrightarrow> 0 \<le> round_even y"
  by (simp add: round_even_def Let_def)

lemma round_even_pos: "1 \<le> y \<Longrightarrow> 0 < round_even y"
proof -
  assume "1 \<le> y"
  then have "1 \<le> \<lfloor>y\<rfloor>" by simp
  then show ?thesis by (simp add: round_even_def Let_def)
qed

lemma roundFloat_nonneg: "0 \<le> x \<Longrightarrow> 0 \<le> roundFloat P x"
  by (simp add: roundFloat_def Let_def round_even_nonneg)

lemma roundFloat_zero [simp]: "roundFloat P 0 = 0"
  by (simp add: roundFloat_def)

lemma roundFloat_pos:
  assumes "0 < x" and "0 < P"
  shows "0 < roundFloat P x"
proof -
  define e where "e = \<lfloor>log 2 \<bar>x\<bar>\<rfloor>"
  define u where "u = 2 powr (of_int e + 1 - real P)"
  have u: "0 < u" by (simp add: u_def)
  have "of_int e \<le> log 2 x" using assms(1) by (simp add: e_def)
  then have "2 powr of_int e \<le> x" using assms(1) by (simp add: le_log_iff)
  moreover have "u \<le> 2 powr of_int e"
    unfolding u_def using assms(2) by (intro powr_mono) simp_all
  ultimately have "u \<le> x" by simp
  then have "1 \<le> x / u" using u by (simp add: le_divide_eq)
  then have "0 < round_even (x / u)" by (rule round_even_pos)
  then have "0 < of_int (round_even (x / u)) * u" using u by simp
  then show ?thesis
    using assms(1) by (simp add: roundFloat_def Let_def e_def u_def)
qed

lemma round_even_bounds: "of_int \<lfloor>y\<rfloor> \<le> (of_int (round_even y) :: real)"
  "round_even y \<le> \<lfloor>y\<rfloor> + 1"
  by (simp_all add: round_even_def Let_def)









lemma roundFloat_of_nat:
  assumes "k < 2 ^ P"
  shows "roundFloat P (real k) = real k"
proof (cases "k = 0")
  case True
  then show ?thesis by simp
next
  case False
  then have k: "1 \<le> real k" by simp
  define e where "e = \<lfloor>log 2 (real k)\<rfloor>"
  have e0: "0 \<le> e"
    unfolding e_def using k by simp
  have "real k < 2 ^ P" using assms by (metis of_nat_less_iff of_nat_numeral of_nat_power)
  then have "log 2 (real k) < real P"
    using k by (simp add: log_less_iff powr_realpow)
  then have eP: "e < int P"
    unfolding e_def by linarith
  define j where "j = nat (int P - 1 - e)"
  have ej: "of_int e + 1 - real P = - real j"
    using eP by (simp add: j_def)
  have u: "(2::real) powr (- real j) = 1 / 2 ^ j"
    by (simp add: powr_minus powr_realpow divide_simps)
  have "real k / (1 / 2 ^ j) = of_int (int k * 2 ^ j)"
    by simp
  then have "round_even (real k / (1 / 2 ^ j)) = int k * 2 ^ j"
    by (simp only: round_even_of_int)
  then show ?thesis
    using False by (simp add: roundFloat_def Let_def e_def [symmetric] ej u)
qed

lemma toFloat_zero [simp]: "toFloat P 0 = 0"
  by (simp add: toFloat_def)

lemma toFloat_exact [simp]: "k < 2 ^ P \<Longrightarrow> toFloat P k = real k"
  by (simp add: toFloat_def roundFloat_of_nat)


lemma toFloat_pos: "0 < P \<Longrightarrow> 0 < k \<Longrightarrow> 0 < toFloat P k"
  by (simp add: toFloat_def roundFloat_pos)


lemma roundFloat_24_values [simp]:
  "roundFloat 24 (1 / 4) = 1 / 4" "roundFloat 24 (1 / 2) = 1 / 2" "roundFloat 24 (3 / 4) = 3 / 4"
  "roundFloat 24 1 = 1" "roundFloat 24 2 = 2" "roundFloat 24 4 = 4"
proof -
  show "roundFloat 24 (1 / 4) = 1 / 4"
    by (subst roundFloat_bracket [where e = "- 2"]) (simp_all add: powr_minus round_even_def)
  show "roundFloat 24 (1 / 2) = 1 / 2"
    by (subst roundFloat_bracket [where e = "- 1"]) (simp_all add: powr_minus round_even_def)
  show "roundFloat 24 (3 / 4) = 3 / 4"
    by (subst roundFloat_bracket [where e = "- 1"]) (simp_all add: powr_minus round_even_def)
  show "roundFloat 24 1 = 1"
    by (subst roundFloat_bracket [where e = 0]) (simp_all add: powr_minus round_even_def)
  show "roundFloat 24 2 = 2"
    by (subst roundFloat_bracket [where e = 1]) (simp_all add: powr_minus round_even_def)
  show "roundFloat 24 4 = 4"
    by (subst roundFloat_bracket [where e = 2]) (simp_all add: powr_minus round_even_def)
qed

lemma roundFloat_24_more [simp]:
  "roundFloat 24 16 = 16" "roundFloat 24 32 = 32" "roundFloat 24 64 = 64"
proof -
  show "roundFloat 24 16 = 16"
    by (subst roundFloat_bracket [where e = 4]) (simp_all add: powr_minus round_even_def)
  show "roundFloat 24 32 = 32"
    by (subst roundFloat_bracket [where e = 5]) (simp_all add: powr_minus round_even_def)
  show "roundFloat 24 64 = 64"
    by (subst roundFloat_bracket [where e = 6]) (simp_all add: powr_minus round_even_def)
qed

lemma roundFloat_24_small [simp]:
  "roundFloat 24 (1 / 8) = 1 / 8"
  "roundFloat 24 (1 / 16) = 1 / 16"
  "roundFloat 24 (1 / 32) = 1 / 32"
  "roundFloat 24 (1 / 64) = 1 / 64"
  "roundFloat 24 (3 / 32) = 3 / 32"
proof -
  show "roundFloat 24 (1 / 8) = 1 / 8"
    by (subst roundFloat_bracket [where e = "- 3"]) (simp_all add: powr_minus round_even_def)
  show "roundFloat 24 (1 / 16) = 1 / 16"
    by (subst roundFloat_bracket [where e = "- 4"]) (simp_all add: powr_minus round_even_def)
  show "roundFloat 24 (1 / 32) = 1 / 32"
    by (subst roundFloat_bracket [where e = "- 5"]) (simp_all add: powr_minus round_even_def)
  show "roundFloat 24 (1 / 64) = 1 / 64"
    by (subst roundFloat_bracket [where e = "- 6"]) (simp_all add: powr_minus round_even_def)
  show "roundFloat 24 (3 / 32) = 3 / 32"
    by (subst roundFloat_bracket [where e = "- 4"]) (simp_all add: powr_minus round_even_def)
qed


lemma roundFloat_24_distant [simp]:
  "roundFloat 24 524288 = 524288"
  "roundFloat 24 (33554433 / 64) = 524288"
  "roundFloat 24 (16777217 / 32) = 524288"
  "roundFloat 24 (8388609 / 16) = 8388609 / 16"
proof -
  show "roundFloat 24 524288 = 524288"
    by (subst roundFloat_bracket [where e = 19]) (simp_all add: powr_minus round_even_def)
  show "roundFloat 24 (33554433 / 64) = 524288"
    by (subst roundFloat_bracket [where e = 19]) (simp_all add: powr_minus round_even_def)
  show "roundFloat 24 (16777217 / 32) = 524288"
    by (subst roundFloat_bracket [where e = 19]) (simp_all add: powr_minus round_even_def)
  show "roundFloat 24 (8388609 / 16) = 8388609 / 16"
    by (subst roundFloat_bracket [where e = 19]) (simp_all add: powr_minus round_even_def)
qed

lemma roundFloat_24_long [simp]:
  "roundFloat 24 (35 / 6) = 12233387 / 2097152"
  "roundFloat 24 (35 / 192) = 12233387 / 67108864"
  "roundFloat 24 (146451115 / 67108864) = 9153195 / 4194304"
  "roundFloat 24 (158684507 / 67108864) = 4958891 / 2097152"
  "roundFloat 24 (170917899 / 67108864) = 10682369 / 4194304"
  "roundFloat 24 (183151291 / 67108864) = 2861739 / 1048576"
  "roundFloat 24 (195384683 / 67108864) = 12211543 / 4194304"
  "roundFloat 24 (61166935 / 67108864) = 7645867 / 8388608"
  "roundFloat 24 (24423083 / 8388608) = 6105771 / 2097152"
  "roundFloat 24 (207618057 / 67108864) = 12976129 / 4194304"
  "roundFloat 24 (207618059 / 67108864) = 12976129 / 4194304"
proof -
  show "roundFloat 24 (35 / 6) = 12233387 / 2097152"
    by (subst roundFloat_bracket [where e = 2]) (simp_all add: powr_minus round_even_def)
  show "roundFloat 24 (35 / 192) = 12233387 / 67108864"
    by (subst roundFloat_bracket [where e = "- 3"]) (simp_all add: powr_minus round_even_def)
  show "roundFloat 24 (146451115 / 67108864) = 9153195 / 4194304"
    by (subst roundFloat_bracket [where e = 1]) (simp_all add: powr_minus round_even_def)
  show "roundFloat 24 (158684507 / 67108864) = 4958891 / 2097152"
    by (subst roundFloat_bracket [where e = 1]) (simp_all add: powr_minus round_even_def)
  show "roundFloat 24 (170917899 / 67108864) = 10682369 / 4194304"
    by (subst roundFloat_bracket [where e = 1]) (simp_all add: powr_minus round_even_def)
  show "roundFloat 24 (183151291 / 67108864) = 2861739 / 1048576"
    by (subst roundFloat_bracket [where e = 1]) (simp_all add: powr_minus round_even_def)
  show "roundFloat 24 (195384683 / 67108864) = 12211543 / 4194304"
    by (subst roundFloat_bracket [where e = 1]) (simp_all add: powr_minus round_even_def)
  show "roundFloat 24 (61166935 / 67108864) = 7645867 / 8388608"
    by (subst roundFloat_bracket [where e = "- 1"]) (simp_all add: powr_minus round_even_def)
  show "roundFloat 24 (24423083 / 8388608) = 6105771 / 2097152"
    by (subst roundFloat_bracket [where e = 1]) (simp_all add: powr_minus round_even_def)
  show "roundFloat 24 (207618057 / 67108864) = 12976129 / 4194304"
    by (subst roundFloat_bracket [where e = 1]) (simp_all add: powr_minus round_even_def)
  show "roundFloat 24 (207618059 / 67108864) = 12976129 / 4194304"
    by (subst roundFloat_bracket [where e = 1]) (simp_all add: powr_minus round_even_def)
qed

lemma roundFloat_24_wide [simp]:
  "roundFloat 24 (35 / 32) = 35 / 32"
  "roundFloat 24 (12233387 / 67108864) = 12233387 / 67108864"
proof -
  show "roundFloat 24 (35 / 32) = 35 / 32"
    by (subst roundFloat_bracket [where e = 0]) (simp_all add: powr_minus round_even_def)
  show "roundFloat 24 (12233387 / 67108864) = 12233387 / 67108864"
    by (subst roundFloat_bracket [where e = "- 3"]) (simp_all add: powr_minus round_even_def)
qed

lemma ex_width_inputs:
  "roundFloat 24 (35 / 3) = 12233387 / 1048576"
  "roundFloat 24 (35 / 384) = 12233387 / 134217728"
proof -
  show "roundFloat 24 (35 / 3) = 12233387 / 1048576"
    by (subst roundFloat_bracket [where e = 3]) (simp_all add: powr_minus round_even_def)
  show "roundFloat 24 (35 / 384) = 12233387 / 134217728"
    by (subst roundFloat_bracket [where e = "- 4"]) (simp_all add: powr_minus round_even_def)
qed

lemma ex_float_inputs:
  "roundFloat 24 (5033165 / 8388608) = 5033165 / 8388608"
  "roundFloat 24 (13421773 / 134217728) = 13421773 / 134217728"
  "roundFloat 24 (80530640 / 13421773) = 6"
  "roundFloat 53 4294967295 = 4294967295"
proof -
  show "roundFloat 24 (5033165 / 8388608) = 5033165 / 8388608"
    by (subst roundFloat_bracket [where e = "- 1"]) (simp_all add: powr_minus round_even_def)
  show "roundFloat 24 (13421773 / 134217728) = 13421773 / 134217728"
    by (subst roundFloat_bracket [where e = "- 4"]) (simp_all add: powr_minus round_even_def)
  show "roundFloat 24 (80530640 / 13421773) = 6"
    by (subst roundFloat_bracket [where e = 2]) (simp_all add: powr_minus round_even_def)
  show "roundFloat 53 4294967295 = 4294967295"
    by (subst roundFloat_bracket [where e = 31]) (simp_all add: powr_minus round_even_def)
qed

subsection \<open>The step counts\<close>

lemma two_ceiling_half:
  fixes x :: real
  shows "2 * \<lceil>x / 2\<rceil> = \<lceil>x\<rceil> + \<lceil>x\<rceil> mod 2"
proof -
  define m where "m = \<lceil>x / 2\<rceil>"
  have "real_of_int m - 1 < x / 2" "x / 2 \<le> real_of_int m"
    unfolding m_def by linarith+
  then have "real_of_int (2 * m - 2) < x" "x \<le> real_of_int (2 * m)"
    by simp_all
  then have "2 * m - 2 < \<lceil>x\<rceil>" "\<lceil>x\<rceil> \<le> 2 * m"
    by (simp_all add: less_ceiling_iff ceiling_le_iff)
  then have "\<lceil>x\<rceil> + \<lceil>x\<rceil> mod 2 = 2 * m"
    by presburger
  then show ?thesis by (simp add: m_def)
qed

lemma unat_simpson_nSteps:
  assumes "q = roundFloat P (len / s)" and "0 \<le> \<lceil>q\<rceil>" and "\<lceil>q\<rceil> < 2 ^ 32 - 1"
  shows "unat (simpson_nSteps P len s) = 2 * nat \<lceil>q / 2\<rceil>"
proof -
  define k where "k = \<lceil>q\<rceil>"
  have k: "0 \<le> k" "k < 2 ^ 32 - 1" using assms(2,3) by (simp_all add: k_def)
  have u: "unat (word_of_int k :: 32 word) = nat k"
    using k by (simp add: unat_eq_nat_uint uint_word_of_int take_bit_int_eq_self)
  have "unat ((word_of_int k :: 32 word) + word_of_int k mod 2) = (nat k + nat k mod 2) mod 2 ^ 32"
    by (simp add: unat_word_ariths u)
  also have "\<dots> = nat k + nat k mod 2"
  proof -
    have "nat k < 4294967295" using k by simp
    moreover have "nat k mod 2 \<le> 1" by simp
    ultimately have "nat k + nat k mod 2 < 2 ^ 32" by simp
    then show ?thesis by simp
  qed
  also have "\<dots> = nat (k + k mod 2)"
    using k by (simp add: nat_add_distrib nat_mod_distrib)
  also have "\<dots> = nat (2 * \<lceil>q / 2\<rceil>)"
    unfolding k_def two_ceiling_half [symmetric] ..
  also have "\<dots> = 2 * nat \<lceil>q / 2\<rceil>"
    by (simp add: nat_mult_distrib)
  finally show ?thesis
    by (simp add: simpson_nSteps_def ceil_u32_def k_def Let_def assms(1))
qed


lemma simpson_nSteps_zero_length: "unat (simpson_nSteps P 0 s) = 0"
  by (simp add: simpson_nSteps_def ceil_u32_def)


subsection \<open>The quadrature loop with and without the early exit\<close>







subsection \<open>The branches of integrateDensity\<close>

lemma maxComp_of_nonneg: "0 \<le> maxComp_of p q"
  by (cases p, cases q) (simp add: maxComp_of_def le_max_iff_disj)

lemma integrateDensity_loop_form:
  assumes "rayIntersect M r = Some (mint0, maxt0)"
    and "mint = max mint0 (ray_mint r)" and "maxt = min maxt0 (ray_maxt r)"
    and "\<not> maxt - mint < 1 / 1000000 * maxComp_of (ray_at r mint) (ray_at r maxt)"
    and "n = unat (simpson_nSteps (Float_digits M)
                     (roundFloat (Float_digits M) (maxt - mint)) (m_stepSize M))"
    and "toFloat (Float_digits M) n \<noteq> 0"
    and "h = roundFloat (Float_digits M)
               (roundFloat (Float_digits M) (maxt - mint) / toFloat (Float_digits M) n)"
  shows "integrateDensity M r =
       (case simpsonLoop M (ray_d r) (vscaleF (Float_digits M) (ray_d r) h)
               (fdiv (- ln (Epsilon M) * 3) (h * m_densityMultiplier M)) n 1
               (padd (Float_digits M) (ray_at r mint) (vscaleF (Float_digits M) (ray_d r) h)) 4
               (lookupDensity M (ray_at r mint) (ray_d r)
                 + lookupDensity M (ray_at r maxt) (ray_d r)) of
          None \<Rightarrow> PInf
        | Some s \<Rightarrow> Fin (s * m_densityMultiplier M * h * (1 / 3)))"
proof -
  have f: "fdivF (Float_digits M) (roundFloat (Float_digits M) (maxt - mint))
             (toFloat (Float_digits M) n) = Fin h"
    using assms(6,7) by (simp add: fdivF_def)
  show ?thesis
    unfolding integrateDensity_def assms(2,3)
    by (simp only: Let_def assms(1) option.case prod.case assms(4) [unfolded assms(2,3)] if_False
          assms(5) [unfolded assms(2,3), symmetric] f [unfolded assms(2,3)] xfloat.case)
qed



subsection \<open>The Newton-Bisection loop and the inversion loop\<close>


lemma invertLoop_success_t:
  "invertLoop M d fs hs h mu D mint n i p n1 I = (True, I', t, dt, w) \<Longrightarrow> t \<noteq> None"
proof (induction M d fs hs h mu D mint n i p n1 I rule: invertLoop.induct)
  case (1 M d fs hs h mu D mint n i p n1 I)
  from "1.prems" show ?case
    apply (subst (asm) invertLoop.simps)
    apply (auto simp: Let_def split: if_splits option.splits dest: "1.IH")
    done
qed




lemma invertDensityIntegral_success_t:
  "inv_success (invertDensityIntegral M r D) \<Longrightarrow> inv_t (invertDensityIntegral M r D) \<noteq> None"
  by (auto simp: invertDensityIntegral_def Let_def split: option.splits prod.splits if_splits
           dest: invertLoop_success_t)

subsection \<open>What the two marching loops add up\<close>

lemma simpsonLoop_sum:
  "(\<And>k. Suc (i + k) < n \<Longrightarrow>
        advance (Float_digits M) p inc k \<noteq> advance (Float_digits M) p inc (Suc k)) \<Longrightarrow>
   simpsonLoop M d inc X n i p m acc = Some s \<Longrightarrow>
   s = acc + (\<Sum>k<n - i. (if even k then m else 6 - m)
                        * lookupDensity M (advance (Float_digits M) p inc k) d)"
proof (induction M d inc X n i p m acc rule: simpsonLoop.induct)
  case (1 M d inc X n i p m acc)
  let ?P = "Float_digits M"
  show ?case
  proof (cases "i < n")
    case False
    with "1.prems"(2) show ?thesis
      by (subst (asm) simpsonLoop.simps) simp
  next
    case lt: True
    then have ni: "n - i = Suc (n - Suc i)" by simp
    from "1.prems"(2) lt
    have ne: "\<not> (HETVOL_EARLY_EXIT M \<and> gt_x (acc + m * lookupDensity M p d) X)"
      by (subst (asm) simpsonLoop.simps) (auto simp: Let_def split: if_splits)
    show ?thesis
    proof (cases "p = padd ?P p inc")
      case True
      with "1.prems"(2) lt ne have s: "s = acc + m * lookupDensity M p d"
        by (subst (asm) simpsonLoop.simps) (simp add: Let_def)
      have "\<not> Suc i < n"
        using "1.prems"(1) [of 0] True by auto
      with lt have "n - i = 1" by simp
      with s show ?thesis by simp
    next
      case np: False
      with "1.prems"(2) lt ne
      have r: "simpsonLoop M d inc X n (Suc i) (padd ?P p inc) (6 - m)
                 (acc + m * lookupDensity M p d) = Some s"
        by (subst (asm) simpsonLoop.simps) (simp add: Let_def)
      have "s = acc + m * lookupDensity M p d
                + (\<Sum>k<n - Suc i. (if even k then 6 - m else 6 - (6 - m))
                        * lookupDensity M (advance ?P (padd ?P p inc) inc k) d)"
      proof (rule "1.IH" [OF lt refl refl ne refl np _ r])
        fix k assume "Suc (Suc i + k) < n"
        then have "Suc (i + Suc k) < n" by simp
        from "1.prems"(1) [OF this]
        show "advance ?P (padd ?P p inc) inc k \<noteq> advance ?P (padd ?P p inc) inc (Suc k)"
          by simp
      qed
      moreover have "(\<Sum>k<n - Suc i. (if even k then 6 - m else 6 - (6 - m))
                        * lookupDensity M (advance ?P (padd ?P p inc) inc k) d)
          = (\<Sum>k<n - Suc i. (if even (Suc k) then m else 6 - m)
                        * lookupDensity M (advance ?P p inc (Suc k)) d)"
        by (rule sum.cong) auto
      ultimately show ?thesis
        unfolding ni sum.lessThan_Suc_shift by simp
    qed
  qed
qed





subsection \<open>Values on the example inputs\<close>


lemma ex_integrateDensity_form:
  "integrateDensity (ex_medium method (constDensity c)) ex_ray =
     (case simpsonLoop (ex_medium method (constDensity c)) (1, 0, 0) (1 / 2, 0, 0)
             (Fin (6 * ln 10000)) 2 1 (1 / 2, 0, 0) 4 (c + c) of
        None \<Rightarrow> PInf
      | Some s \<Rightarrow> Fin (s * (1 / 2) * (1 / 3)))"
proof -
  let ?M = "ex_medium method (constDensity c)"
  have "integrateDensity ?M ex_ray =
       (case simpsonLoop ?M (ray_d ex_ray) (vscaleF (Float_digits ?M) (ray_d ex_ray) (1 / 2))
               (fdiv (- ln (Epsilon ?M) * 3) (1 / 2 * m_densityMultiplier ?M)) 2 1
               (padd (Float_digits ?M) (ray_at ex_ray 0) (vscaleF (Float_digits ?M) (ray_d ex_ray) (1 / 2))) 4
               (lookupDensity ?M (ray_at ex_ray 0) (ray_d ex_ray)
                 + lookupDensity ?M (ray_at ex_ray 1) (ray_d ex_ray)) of
          None \<Rightarrow> PInf
        | Some s \<Rightarrow> Fin (s * m_densityMultiplier ?M * (1 / 2) * (1 / 3)))"
    by (rule integrateDensity_loop_form [where ?mint0.0 = 0 and ?maxt0.0 = 1])
       (simp_all add: maxComp_of_def ray_at_def simpson_nSteps_def ceil_u32_def)
  then show ?thesis
    by (simp add: ray_at_def fdiv_def constDensity_def ln_div cong: option.case_cong)
qed

lemma ex_integrateDensity_low:
  "integrateDensity (ex_medium method (constDensity (1 / 10))) ex_ray = Fin (1 / 10)"
proof -
  have l: "\<not> 10 * ln (10000::real) < 1"
    using ln_10000_bounds by linarith
  have "simpsonLoop (ex_medium method (constDensity (1 / 10))) (1, 0, 0) (1 / 2, 0, 0)
          (Fin (6 * ln 10000)) 2 1 (1 / 2, 0, 0) 4 (1 / 10 + 1 / 10) = Some (3 / 5)"
    apply (subst simpsonLoop.simps)
    apply (simp add: Let_def constDensity_def l)
    apply (subst simpsonLoop.simps)
    apply simp
    done
  then show ?thesis
    by (simp add: ex_integrateDensity_form)
qed






lemma ex_quarter_integrateDensity_form:
  "integrateDensity (ex_medium method f\<lparr>m_stepSize := 1 / 4\<rparr>) ex_ray =
     (case simpsonLoop (ex_medium method f\<lparr>m_stepSize := 1 / 4\<rparr>) (1, 0, 0) (1 / 4, 0, 0)
             (Fin (12 * ln 10000)) 4 1 (1 / 4, 0, 0) 4 (f (0, 0, 0) + f (1, 0, 0)) of
        None \<Rightarrow> PInf
      | Some s \<Rightarrow> Fin (s * (1 / 4) * (1 / 3)))"
proof -
  let ?M = "ex_medium method f\<lparr>m_stepSize := 1 / 4\<rparr>"
  have n4: "unat (simpson_nSteps 24 1 (1 / 4)) = 4"
    by (simp add: simpson_nSteps_def ceil_u32_def)
  have "integrateDensity ?M ex_ray =
       (case simpsonLoop ?M (ray_d ex_ray) (vscaleF (Float_digits ?M) (ray_d ex_ray) (1 / 4))
               (fdiv (- ln (Epsilon ?M) * 3) (1 / 4 * m_densityMultiplier ?M)) 4 1
               (padd (Float_digits ?M) (ray_at ex_ray 0) (vscaleF (Float_digits ?M) (ray_d ex_ray) (1 / 4))) 4
               (lookupDensity ?M (ray_at ex_ray 0) (ray_d ex_ray)
                 + lookupDensity ?M (ray_at ex_ray 1) (ray_d ex_ray)) of
          None \<Rightarrow> PInf
        | Some s \<Rightarrow> Fin (s * m_densityMultiplier ?M * (1 / 4) * (1 / 3)))"
    by (rule integrateDensity_loop_form [where ?mint0.0 = 0 and ?maxt0.0 = 1])
       (simp_all add: maxComp_of_def ray_at_def ex_stepSize_fields n4)
  then show ?thesis
    by (simp add: ray_at_def fdiv_def ex_stepSize_fields ln_div cong: option.case_cong)
qed

lemma ex_quarter_integrateDensity_low:
  "integrateDensity (ex_medium method (constDensity (1 / 10))\<lparr>m_stepSize := 1 / 4\<rparr>) ex_ray
     = Fin (1 / 10)"
proof -
  let ?M = "ex_medium method (constDensity (1 / 10))\<lparr>m_stepSize := 1 / 4\<rparr>"
  have l: "\<not> 20 * ln (10000::real) < 1" "\<not> 15 * ln (10000::real) < 1"
    "\<not> 10 * ln (10000::real) < 1"
    using ln_10000_bounds by linarith+
  have "simpsonLoop ?M (1, 0, 0) (1 / 4, 0, 0) (Fin (12 * ln 10000)) 4 1 (1 / 4, 0, 0) 4
          (constDensity (1 / 10) (0, 0, 0) + constDensity (1 / 10) (1, 0, 0)) = Some (6 / 5)"
    apply (subst simpsonLoop.simps, simp add: Let_def constDensity_def ex_stepSize_fields l)
    apply (subst simpsonLoop.simps, simp add: Let_def constDensity_def ex_stepSize_fields l)
    apply (subst simpsonLoop.simps, simp add: Let_def constDensity_def ex_stepSize_fields l)
    apply (subst simpsonLoop.simps, simp)
    done
  then show ?thesis
    by (simp add: ex_quarter_integrateDensity_form)
qed

lemma ex_distant_ray_not_degenerate:
  "\<not> (1::real) - 0 < 1 / 1000000 * maxComp_of (ray_at ex_distant_ray 0) (ray_at ex_distant_ray 1)"
  by (simp add: maxComp_of_def ray_at_def)



lemma ex_distant_integrateDensity_64:
  "integrateDensity (ex_medium method (constDensity 1)\<lparr>m_stepSize := 1 / 64\<rparr>) ex_distant_ray
     = Fin (1 / 32)"
proof -
  let ?M = "ex_medium method (constDensity 1)\<lparr>m_stepSize := 1 / 64\<rparr>"
  have n: "unat (simpson_nSteps 24 1 (1 / 64)) = 64"
    by (simp add: simpson_nSteps_def ceil_u32_def)
  have l: "\<not> 32 * ln (10000::real) < 1"
    using ln_10000_bounds by linarith
  have sl: "simpsonLoop ?M (1, 0, 0) (1 / 64, 0, 0) (Fin (192 * ln 10000)) 64 1 (524288, 0, 0) 4 2
      = Some 6"
    by (subst simpsonLoop.simps) (simp add: Let_def constDensity_def ex_stepSize_fields l)
  have "integrateDensity ?M ex_distant_ray =
       (case simpsonLoop ?M (ray_d ex_distant_ray) (vscaleF (Float_digits ?M) (ray_d ex_distant_ray) (1 / 64))
               (fdiv (- ln (Epsilon ?M) * 3) (1 / 64 * m_densityMultiplier ?M)) 64 1
               (padd (Float_digits ?M) (ray_at ex_distant_ray 0)
                  (vscaleF (Float_digits ?M) (ray_d ex_distant_ray) (1 / 64))) 4
               (lookupDensity ?M (ray_at ex_distant_ray 0) (ray_d ex_distant_ray)
                 + lookupDensity ?M (ray_at ex_distant_ray 1) (ray_d ex_distant_ray)) of
          None \<Rightarrow> PInf
        | Some s \<Rightarrow> Fin (s * m_densityMultiplier ?M * (1 / 64) * (1 / 3)))"
    by (rule integrateDensity_loop_form [where ?mint0.0 = 0 and ?maxt0.0 = 1])
       (simp_all add: maxComp_of_def ray_at_def ex_stepSize_fields n)
  then show ?thesis
    using sl
    by (simp add: ray_at_def fdiv_def ex_stepSize_fields constDensity_def ln_div)
qed














section \<open>The claims\<close>




text \<open>
  C2. Under the Simpson quadrature strategy \<^verbatim>\<open>getTransmittance\<close> returns the spectrum
  whose every channel is \<open>exp (- integrateDensity ray)\<close>, for every sampler argument,
  and leaves the sampler as it was.
\<close>

theorem getTransmittance_quadrature:
  "getTransmittance (M\<lparr>m_method := ESimpsonQuadrature\<rparr>) r sampler =
     Some (Spectrum (exp_neg (integrateDensity M r)), sampler)
   \<and> Spectrum (exp_neg (integrateDensity M r))
       = replicate SPECTRUM_SAMPLES (exp_neg (integrateDensity M r))"
  by (simp add: getTransmittance_def Spectrum_def)




text \<open>
  C4. Under Woodcock tracking \<^verbatim>\<open>pdfDistance\<close> raises the fatal error and returns no
  record; under Simpson quadrature it returns a record.
\<close>

theorem pdfDistance_woodcock_fatal:
  "pdfDistance (M\<lparr>m_method := EWoodcockTracking\<rparr>) r mRec = Inl UnsupportedIntegrationMethod
   \<and> (\<exists>mRec'. pdfDistance (M\<lparr>m_method := ESimpsonQuadrature\<rparr>) r mRec = Inr mRec')"
  by (simp add: pdfDistance_def Let_def)

text \<open>
  C5 (amended). Under Woodcock tracking, \<^verbatim>\<open>getTransmittance\<close> called without a sampler
  does not fail: it returns the deterministic value \<open>exp (- integrateDensity ray)\<close> in
  every channel.
\<close>

theorem getTransmittance_no_sampler:
  "getTransmittance (M\<lparr>m_method := EWoodcockTracking\<rparr>) r None =
     Some (Spectrum (exp_neg (integrateDensity M r)), None)"
  by (simp add: getTransmittance_def)

theorem getTransmittance_no_sampler_counterexample:
  "m_method (ex_medium EWoodcockTracking (constDensity (1 / 10))) = EWoodcockTracking
   \<and> getTransmittance (ex_medium EWoodcockTracking (constDensity (1 / 10))) ex_ray None
       = Some (Spectrum (Fin (exp (- (1 / 10)))), None)"
  by (simp add: getTransmittance_def ex_integrateDensity_low)

text \<open>
  C6 (amended). After a call of \<^verbatim>\<open>sampleDistance\<close> under Woodcock tracking that
  returns, \<open>pdfSuccess\<close>, \<open>pdfFailure\<close> and \<open>pdfSuccessRev\<close> are exactly 1. The
  transmittance is exactly 1 in every channel when no collision is reported; when a
  collision is reported it is the channel-wise quotient \<^verbatim>\<open>albedo / sigmaS\<close>.
\<close>

theorem sampleDistance_woodcock_sentinels:
  assumes "m_method M = EWoodcockTracking"
    and "sampleDistance M r mRec sampler = Some (success, mRec', sampler')"
  shows "pdfSuccess mRec' = Fin 1 \<and> pdfFailure mRec' = Fin 1 \<and> pdfSuccessRev mRec' = Fin 1
    \<and> transmittance mRec' =
        (if success then spec_fdiv (m_albedo M (mr_p mRec')) (mr_sigmaS mRec')
         else Spectrum (Fin 1))"
  using assms
  by (auto simp: sampleDistance_def Let_def split: option.splits prod.splits)

theorem sampleDistance_woodcock_sentinels_witness:
  "m_method (ex_medium EWoodcockTracking (constDensity 2)) = EWoodcockTracking
   \<and> (\<exists>mRec'. sampleDistance (ex_medium EWoodcockTracking (constDensity 2)) ex_ray ex_mRec
                  [1 - exp (- 2), 1 / 2] = Some (False, mRec', [1 / 2])
        \<and> pdfSuccess mRec' = Fin 1 \<and> pdfFailure mRec' = Fin 1 \<and> pdfSuccessRev mRec' = Fin 1
        \<and> transmittance mRec' = Spectrum (Fin 1))"
proof -
  let ?M = "ex_medium EWoodcockTracking (constDensity 2)"
  have m: "m_method ?M = EWoodcockTracking" by simp
  obtain mRec' where
    s: "sampleDistance ?M ex_ray ex_mRec [1 - exp (- 2), 1 / 2] = Some (False, mRec', [1 / 2])"
    by (simp add: sampleDistance_def Let_def)
  from sampleDistance_woodcock_sentinels [OF m s] m s show ?thesis
    by auto
qed

theorem sampleDistance_woodcock_transmittance_counterexample:
  "m_method (ex_medium EWoodcockTracking (constDensity 2)) = EWoodcockTracking
   \<and> sampleDistance (ex_medium EWoodcockTracking (constDensity 2)) ex_ray ex_mRec [1 / 2, 1 / 2]
       \<noteq> None
   \<and> fst (the (sampleDistance (ex_medium EWoodcockTracking (constDensity 2)) ex_ray ex_mRec
                 [1 / 2, 1 / 2]))
   \<and> transmittance (fst (snd (the
         (sampleDistance (ex_medium EWoodcockTracking (constDensity 2)) ex_ray ex_mRec
            [1 / 2, 1 / 2]))))
       = [Fin (1 / 2), Fin (1 / 2), Fin (1 / 2)]
   \<and> Spectrum (Fin 1) = [Fin 1, Fin 1, Fin (1::real)]"
  by (simp add: sampleDistance_def Let_def ln_div ln_2_not_ge_2 constDensity_def
        spec_fdiv_def spec_scale_def fdiv_def Spectrum_def SPECTRUM_SAMPLES_def
        numeral_3_eq_3)




text \<open>
  C8 (amended). The lookup returns the base density when the medium is isotropic or the
  base density is zero; otherwise the base density times the directional multiplier
  at \<open>dot d orientation\<close> when the orientation at \<open>p\<close> is not the zero vector, and
  zero when it is. The code does not clamp: the result is \<open>\<ge> 0\<close> when the base
  density at \<open>p\<close> and the directional multiplier are.
\<close>

theorem lookupDensity_contract:
  "lookupDensity M p d =
     (if m_anisotropicMedium M \<and> m_density M p \<noteq> 0
      then (if \<not> isZero (the (m_orientation M) p)
            then m_density M p * sigmaDir M (dot d (the (m_orientation M) p))
            else 0)
      else m_density M p)
   \<and> (0 \<le> m_density M p \<and> (\<forall>c. 0 \<le> sigmaDir M c) \<longrightarrow> 0 \<le> lookupDensity M p d)"
  by (cases "m_directional M") (auto simp: lookupDensity_def Let_def)

theorem lookupDensity_contract_witness:
  "0 \<le> m_density (ex_medium ESimpsonQuadrature (constDensity 2)\<lparr>m_directional := Anisotropic ex_orientation\<rparr>) (0, 0, 0)
   \<and> (\<forall>c. 0 \<le> sigmaDir (ex_medium ESimpsonQuadrature (constDensity 2)\<lparr>m_directional := Anisotropic ex_orientation\<rparr>) c)
   \<and> lookupDensity (ex_medium ESimpsonQuadrature (constDensity 2)\<lparr>m_directional := Anisotropic ex_orientation\<rparr>) (0, 0, 0) (-3, 1, 0) = 6
   \<and> 0 \<le> lookupDensity (ex_medium ESimpsonQuadrature (constDensity 2)\<lparr>m_directional := Anisotropic ex_orientation\<rparr>) (0, 0, 0) (-3, 1, 0)"
  using lookupDensity_contract
    [of "ex_medium ESimpsonQuadrature (constDensity 2)\<lparr>m_directional := Anisotropic ex_orientation\<rparr>"
        "(0, 0, 0)" "(-3, 1, 0)"]
  by (simp add: ex_medium_def constDensity_def ex_orientation_def)

theorem lookupDensity_negative_counterexample:
  "lookupDensity (ex_medium ESimpsonQuadrature (constDensity (- 1))) (0, 0, 0) (1, 0, 0) = - 1
   \<and> \<not> 0 \<le> lookupDensity (ex_medium ESimpsonQuadrature (constDensity (- 1))) (0, 0, 0) (1, 0, 0)"
  by (simp add: constDensity_def)

text \<open>
  C9 (amended). For a segment that passes the degenerate-segment test, of length \<open>L\<close>
  (the difference \<^verbatim>\<open>maxt - mint\<close> as a \<^verbatim>\<open>Float\<close>), and a step size \<open>s > 0\<close>, let \<open>q\<close> be
  the quotient \<open>L / s\<close> rounded to \<^verbatim>\<open>Float\<close>, as the code computes it, with
  \<open>\<lceil>q\<rceil> < 2\<^sup>3\<^sup>2 - 1\<close> (so that the 32-bit counter does not wrap). The number of
  sub-intervals of \<^verbatim>\<open>integrateDensity\<close> is \<open>n = 2 \<lceil>q / 2\<rceil>\<close>, an even number; it is
  \<open>2 \<lceil>L / (2 s)\<rceil>\<close> when the quotient needs no rounding, and it is positive when
  \<open>L > 0\<close>. The width \<open>h\<close> is the quotient \<open>L / n\<close> rounded to \<^verbatim>\<open>Float\<close>, positive when
  \<open>L > 0\<close>; it is \<open>L / n\<close> when \<open>n\<close> and the quotient are \<^verbatim>\<open>Float\<close> values. When the
  function returns a finite value and every addition \<^verbatim>\<open>p + increment\<close> before the last
  interior node changes \<open>p\<close>, that value is \<open>h / 3\<close> times the density multiplier times
  the sum of the \<open>n + 1\<close> lookups with the weights 1, 4, 2, \<dots>, 4, 1: at \<^verbatim>\<open>ray(mint)\<close>,
  at the \<open>n - 1\<close> points reached from it by repeated addition of the increment
  \<^verbatim>\<open>ray.d * h\<close>, and at \<^verbatim>\<open>ray(maxt)\<close>.
\<close>

theorem integrateDensity_subintervals:
  assumes "rayIntersect M r = Some (mint0, maxt0)"
    and "mint = max mint0 (ray_mint r)" and "maxt = min maxt0 (ray_maxt r)"
    and "L = roundFloat (Float_digits M) (maxt - mint)"
    and "\<not> maxt - mint < 1 / 1000000 * maxComp_of (ray_at r mint) (ray_at r maxt)"
    and "0 < m_stepSize M" and "0 < Float_digits M"
    and "q = roundFloat (Float_digits M) (L / m_stepSize M)"
    and "\<lceil>q\<rceil> < 2 ^ 32 - 1"
    and "n = 2 * nat \<lceil>q / 2\<rceil>"
    and "h = roundFloat (Float_digits M) (L / toFloat (Float_digits M) n)"
    and "inc = vscaleF (Float_digits M) (ray_d r) h"
    and "p1 = padd (Float_digits M) (ray_at r mint) inc"
  shows "unat (simpson_nSteps (Float_digits M) L (m_stepSize M)) = n \<and> even n
     \<and> (q = L / m_stepSize M \<longrightarrow> n = 2 * nat \<lceil>L / (2 * m_stepSize M)\<rceil>)
     \<and> (0 < L \<longrightarrow> 0 < n \<and> 0 < h)
     \<and> (toFloat (Float_digits M) n = real n
          \<and> roundFloat (Float_digits M) (L / real n) = L / real n \<longrightarrow> h = L / real n)
     \<and> (0 < n
         \<and> (\<forall>k. Suc (Suc k) < n \<longrightarrow>
                advance (Float_digits M) p1 inc k \<noteq> advance (Float_digits M) p1 inc (Suc k))
         \<and> integrateDensity M r = Fin v \<longrightarrow>
          v = (lookupDensity M (ray_at r mint) (ray_d r)
               + lookupDensity M (ray_at r maxt) (ray_d r)
               + (\<Sum>k<n - 1. (if even k then 4 else 2)
                     * lookupDensity M (advance (Float_digits M) p1 inc k) (ray_d r)))
              * m_densityMultiplier M * h * (1 / 3))"
proof -
  let ?P = "Float_digits M"
  have L0: "0 \<le> L"
    unfolding assms(4)
    using assms(5) maxComp_of_nonneg [of "ray_at r mint" "ray_at r maxt"]
    by (intro roundFloat_nonneg) simp
  then have "0 \<le> L / m_stepSize M" using assms(6) by simp
  then have q0: "0 \<le> q" unfolding assms(8) by (rule roundFloat_nonneg)
  then have c: "0 \<le> \<lceil>q\<rceil>" by linarith
  have n: "unat (simpson_nSteps ?P L (m_stepSize M)) = n"
    using unat_simpson_nSteps [OF assms(8) c assms(9)] assms(10) by simp
  have ev: "even n" using assms(10) by simp
  have ex: "n = 2 * nat \<lceil>L / (2 * m_stepSize M)\<rceil>" if "q = L / m_stepSize M"
    using that assms(10) by (simp add: field_simps)
  have pos: "0 < n \<and> 0 < h" if "0 < L"
  proof -
    have "0 < L / m_stepSize M" using that assms(6) by simp
    then have "0 < q" unfolding assms(8) using assms(7) by (rule roundFloat_pos)
    then have "0 < \<lceil>q / 2\<rceil>" by (simp add: less_ceiling_iff)
    then have np: "0 < n" using assms(10) by simp
    then have "0 < toFloat ?P n" using assms(7) by (intro toFloat_pos)
    with that have "0 < L / toFloat ?P n" by simp
    then have "0 < h" unfolding assms(11) using assms(7) by (rule roundFloat_pos)
    with np show ?thesis by simp
  qed
  have wd: "h = L / real n"
    if "toFloat ?P n = real n" "roundFloat ?P (L / real n) = L / real n"
    using that by (simp add: assms(11))
  have val: "v = (lookupDensity M (ray_at r mint) (ray_d r)
               + lookupDensity M (ray_at r maxt) (ray_d r)
               + (\<Sum>k<n - 1. (if even k then 4 else 2)
                     * lookupDensity M (advance ?P p1 inc k) (ray_d r)))
              * m_densityMultiplier M * h * (1 / 3)"
    if np: "0 < n"
      and prog: "\<And>k. Suc (Suc k) < n \<Longrightarrow> advance ?P p1 inc k \<noteq> advance ?P p1 inc (Suc k)"
      and fin: "integrateDensity M r = Fin v"
  proof -
    from np have nz: "toFloat ?P n \<noteq> 0"
      using toFloat_pos [OF assms(7) np] by simp
    obtain s where
      sl: "simpsonLoop M (ray_d r) inc (fdiv (- ln (Epsilon M) * 3) (h * m_densityMultiplier M))
             n 1 p1 4
             (lookupDensity M (ray_at r mint) (ray_d r)
               + lookupDensity M (ray_at r maxt) (ray_d r)) = Some s"
      and v: "v = s * m_densityMultiplier M * h * (1 / 3)"
      using fin integrateDensity_loop_form
        [OF assms(1,2,3) assms(5) n [unfolded assms(4), symmetric] nz
            assms(11) [unfolded assms(4)]]
      by (auto simp: assms(12,13) split: option.splits)
    have "s = lookupDensity M (ray_at r mint) (ray_d r)
               + lookupDensity M (ray_at r maxt) (ray_d r)
            + (\<Sum>k<n - 1. (if even k then 4 else 6 - 4)
                     * lookupDensity M (advance ?P p1 inc k) (ray_d r))"
      by (rule simpsonLoop_sum [OF _ sl]) (use prog in simp)
    then have "s = lookupDensity M (ray_at r mint) (ray_d r)
               + lookupDensity M (ray_at r maxt) (ray_d r)
            + (\<Sum>k<n - 1. (if even k then 4 else 2)
                     * lookupDensity M (advance ?P p1 inc k) (ray_d r))"
      by (simp cong: if_cong)
    with v show ?thesis by simp
  qed
  from n ev ex pos wd val show ?thesis by blast
qed

theorem integrateDensity_subintervals_witness:
  "rayIntersect (ex_medium ESimpsonQuadrature (constDensity (1 / 10))\<lparr>m_stepSize := 1 / 4\<rparr>) ex_ray
     = Some (0, 1)
   \<and> \<not> (1::real) < 1 / 1000000 * maxComp_of (ray_at ex_ray 0) (ray_at ex_ray 1)
   \<and> 0 < m_stepSize (ex_medium ESimpsonQuadrature (constDensity (1 / 10))\<lparr>m_stepSize := 1 / 4\<rparr>)
   \<and> roundFloat 24 (1 / (1 / 4)) = 1 / (1 / 4)
   \<and> \<lceil>roundFloat 24 (1 / (1 / 4))\<rceil> < (2 ^ 32 - 1 :: int)
   \<and> unat (simpson_nSteps 24 1 (1 / 4)) = 4
   \<and> (0::real) < 1 \<and> (0::nat) < 24 \<and> (0::nat) < 4
   \<and> toFloat 24 4 = real 4 \<and> roundFloat 24 (1 / real 4) = 1 / real 4
   \<and> advance 24 (1 / 4, 0, 0) (1 / 4, 0, 0) 0 = (1 / 4, 0, 0)
   \<and> advance 24 (1 / 4, 0, 0) (1 / 4, 0, 0) 1 = (1 / 2, 0, 0)
   \<and> advance 24 (1 / 4, 0, 0) (1 / 4, 0, 0) 2 = (3 / 4, 0, 0)
   \<and> integrateDensity
        (ex_medium ESimpsonQuadrature (constDensity (1 / 10))\<lparr>m_stepSize := 1 / 4\<rparr>) ex_ray
       = Fin (1 / 10)
   \<and> (1 / 10 :: real) = (1 / 10 + 1 / 10 + (4 * (1 / 10) + 2 * (1 / 10) + 4 * (1 / 10)))
                          * 1 * (1 / 4) * (1 / 3)"
proof -
  let ?M = "ex_medium ESimpsonQuadrature (constDensity (1 / 10))\<lparr>m_stepSize := 1 / 4\<rparr>"
  have adv: "advance 24 (1 / 4, 0, 0) (1 / 4, 0, 0) 1 = (1 / 2, 0, 0)"
    "advance 24 (1 / 4, 0, 0) (1 / 4, 0, 0) 2 = (3 / 4, 0, 0)"
    by (simp_all add: numeral_2_eq_2)
  have prog: "\<forall>k. Suc (Suc k) < 4 \<longrightarrow>
         advance 24 (1 / 4, 0, 0) (1 / 4, 0, 0) k \<noteq> advance 24 (1 / 4, 0, 0) (1 / 4, 0, 0) (Suc k)"
  proof (intro allI impI)
    fix k :: nat assume "Suc (Suc k) < 4"
    then have "k = 0 \<or> k = 1" by auto
    then show "advance 24 (1 / 4, 0, 0) (1 / 4, 0, 0) k \<noteq> advance 24 (1 / 4, 0, 0) (1 / 4, 0, 0) (Suc k)"
      by auto
  qed
  note fin = ex_quarter_integrateDensity_low [of ESimpsonQuadrature]
  have th: "unat (simpson_nSteps (Float_digits ?M) 1 (m_stepSize ?M)) = 4 \<and> even (4::nat)
     \<and> (roundFloat 24 (1 / (1 / 4)) = 1 / m_stepSize ?M \<longrightarrow> (4::nat) = 2 * nat \<lceil>1 / (2 * m_stepSize ?M)\<rceil>)
     \<and> ((0::real) < 1 \<longrightarrow> (0::nat) < 4 \<and> (0::real) < 1 / 4)
     \<and> (toFloat (Float_digits ?M) 4 = real 4
          \<and> roundFloat (Float_digits ?M) (1 / real 4) = 1 / real 4 \<longrightarrow> (1 / 4 :: real) = 1 / real 4)
     \<and> ((0::nat) < 4
         \<and> (\<forall>k. Suc (Suc k) < 4 \<longrightarrow>
                advance (Float_digits ?M) (1 / 4, 0, 0) (1 / 4, 0, 0) k
                  \<noteq> advance (Float_digits ?M) (1 / 4, 0, 0) (1 / 4, 0, 0) (Suc k))
         \<and> integrateDensity ?M ex_ray = Fin (1 / 10) \<longrightarrow>
          1 / 10 = (lookupDensity ?M (ray_at ex_ray 0) (ray_d ex_ray)
               + lookupDensity ?M (ray_at ex_ray 1) (ray_d ex_ray)
               + (\<Sum>k<4 - 1. (if even k then 4 else 2)
                     * lookupDensity ?M (advance (Float_digits ?M) (1 / 4, 0, 0) (1 / 4, 0, 0) k)
                         (ray_d ex_ray)))
              * m_densityMultiplier ?M * (1 / 4) * (1 / 3))"
    by (rule integrateDensity_subintervals
          [where ?mint0.0 = 0 and ?maxt0.0 = 1 and mint = 0 and maxt = 1 and L = 1
             and q = "roundFloat 24 (1 / (1 / 4))"])
       (simp_all add: maxComp_of_def ray_at_def ex_stepSize_fields)
  from th prog fin adv show ?thesis
    by (simp add: ex_stepSize_fields maxComp_of_def ray_at_def simpson_nSteps_def ceil_u32_def)
qed

theorem integrateDensity_subintervals_counterexample:
  "roundFloat 24 (5033165 / 8388608) = 5033165 / 8388608
   \<and> roundFloat 24 (13421773 / 134217728) = 13421773 / 134217728
   \<and> (0::real) < 13421773 / 134217728
   \<and> unat (simpson_nSteps 24 (5033165 / 8388608) (13421773 / 134217728)) = 6
   \<and> 2 * nat \<lceil>(5033165 / 8388608 :: real) / (2 * (13421773 / 134217728))\<rceil> = 8
   \<and> simpson_nSteps 53 4294967295 1 = 0
   \<and> 2 * nat \<lceil>(4294967295 :: real) / (2 * 1)\<rceil> = 4294967296
   \<and> unat (simpson_nSteps 24 (35 / 32) (3 / 32)) = 12
   \<and> fdivF 24 (35 / 32) (toFloat 24 12) = Fin (12233387 / 134217728)
   \<and> (12233387 / 134217728 :: real) \<noteq> (35 / 32) / 12
   \<and> \<not> (1::real) - 0
         < 1 / 1000000 * maxComp_of (ray_at ex_distant_ray 0) (ray_at ex_distant_ray 1)
   \<and> unat (simpson_nSteps 24 1 (1 / 64)) = 64
   \<and> padd 24 (ray_at ex_distant_ray 0) (vscaleF 24 (ray_d ex_distant_ray) (1 / 64))
       = ray_at ex_distant_ray 0
   \<and> integrateDensity
        (ex_medium ESimpsonQuadrature (constDensity 1)\<lparr>m_stepSize := 1 / 64\<rparr>) ex_distant_ray
       = Fin (1 / 32)"
  using ex_distant_ray_not_degenerate ex_distant_integrateDensity_64 [of ESimpsonQuadrature]
  by (simp add: simpson_nSteps_def ceil_u32_def ex_float_inputs ex_width_inputs fdivF_def
        ray_at_def)

text \<open>
  C10. Under Simpson quadrature \<^verbatim>\<open>sampleDistance\<close> returns, and its result is true
  exactly when \<^verbatim>\<open>invertDensityIntegral\<close> succeeds and
  \<open>pdfSuccess = exp (- integratedDensity) * densityAtT\<close> is positive. When the inversion
  succeeds, the distance it found is written into the record even if the result is
  false, as it is when the fitted density at \<open>t\<close> is zero.
\<close>

theorem sampleDistance_quadrature_success:
  assumes "m_method M = ESimpsonQuadrature"
    and "res = invertDensityIntegral M r (- ln (1 - u))"
    and "pdf = exp (- inv_integratedDensity res) * inv_densityAtT res"
  shows "\<exists>mRec'. sampleDistance M r mRec (u # us) = Some (inv_success res \<and> 0 < pdf, mRec', us)
           \<and> pdfSuccess mRec' = Fin pdf
           \<and> (inv_success res \<longrightarrow> Some (mr_t mRec') = inv_t res)
           \<and> (inv_success res \<and> inv_densityAtT res = 0 \<longrightarrow> \<not> (inv_success res \<and> 0 < pdf))"
  using assms invertDensityIntegral_success_t [of M r "- ln (1 - u)"]
  by (auto simp: sampleDistance_def Let_def)

theorem sampleDistance_quadrature_success_witness:
  "m_method (ex_medium ESimpsonQuadrature (constDensity 0)) = ESimpsonQuadrature
   \<and> inv_success (invertDensityIntegral (ex_medium ESimpsonQuadrature (constDensity 0)) ex_ray (- ln (1 - 0)))
   \<and> inv_densityAtT (invertDensityIntegral (ex_medium ESimpsonQuadrature (constDensity 0)) ex_ray (- ln (1 - 0))) = 0
   \<and> inv_t (invertDensityIntegral (ex_medium ESimpsonQuadrature (constDensity 0)) ex_ray (- ln (1 - 0))) = Some (1 / 2)
   \<and> (\<exists>mRec'. sampleDistance (ex_medium ESimpsonQuadrature (constDensity 0)) ex_ray ex_mRec [0]
                  = Some (False, mRec', [])
        \<and> pdfSuccess mRec' = Fin 0 \<and> mr_t mRec' = 1 / 2)"
proof -
  let ?M = "ex_medium ESimpsonQuadrature (constDensity 0)"
  have m: "m_method ?M = ESimpsonQuadrature" by simp
  have nb: "newtonBisection 1 0 0 0 1 0 0 0 1 0 0 1 = Some (1 / 2, 0, 0)"
    by (subst newtonBisection.simps) (simp add: Let_def lagrange_def lagrangeIntegral_def)
  have il: "invertLoop ?M (1, 0, 0) (1, 0, 0) (1 / 2, 0, 0) 1 (1 / 6) 0 0 1 0 (0, 0, 0) 0 0
            = (True, 0, Some (1 / 2), 0, None)"
    using nb by (subst invertLoop.simps) (simp add: Let_def constDensity_def)
  have res: "invertDensityIntegral ?M ex_ray (- ln (1 - 0))
     = \<lparr>inv_success = True, inv_integratedDensity = 0, inv_t = Some (1 / 2),
         inv_densityAtMinT = 0, inv_densityAtT = 0, inv_warning = None\<rparr>"
    using il
    by (simp add: invertDensityIntegral_def Let_def maxComp_of_def ray_at_def ceil_u32_def
          constDensity_def)
  from sampleDistance_quadrature_success
         [where M = ?M and r = ex_ray and u = 0 and mRec = ex_mRec and us = "[]", OF m refl refl]
  show ?thesis
    using m res by (auto simp: eq_commute [of "Some _" "Some _"])
qed

end
